theory Spec2Isabelle
  imports Main "HOL-Library.Word" "HOL-Library.AList" "HOL-Library.Sublist"
begin

section \<open>Go values, errors and panics\<close>

text \<open>
  The handlers of the DNS zone resource are Go functions over three collaborators: the
  \<^verbatim>\<open>schema.ResourceData\<close> of the plugin SDK (the desired and cached state document), the
  \<^verbatim>\<open>bunny.Client\<close> (the remote API) and the \<^verbatim>\<open>diag\<close> package (the diagnostics a
  handler returns). A Go \<^verbatim>\<open>error\<close> of the local helpers is modelled by its message, a
  remote error by the datatype \<open>api_error\<close>, so that "not found" can be told from any other
  failure. A panic (a failed type assertion, a nil dereference, an explicit \<^verbatim>\<open>panic\<close>) ends
  the handler with \<open>Panic\<close>; a normal return is \<open>Return\<close>.
\<close>

type_synonym int64 = "64 word"

datatype 'a exec = Panic string | Return 'a

datatype api_error = NotFound | ApiFailure string

fun Error_msg :: "api_error \<Rightarrow> string" where
  "Error_msg NotFound = ''Not Found''"
| "Error_msg (ApiFailure m) = m"

text \<open>
  A value of type \<^verbatim>\<open>interface{}\<close>, as far as this resource stores and reads one. A
  \<^verbatim>\<open>structure\<close> is the source's \<^verbatim>\<open>map[string]interface{}\<close>, here an association list;
  the nil map and the empty map are both \<open>[]\<close> (the source only takes \<^verbatim>\<open>len\<close> of one and
  reads keys from it, and the two agree on both).
\<close>

datatype val = VNil | VBool bool | VStr string | VStrPtr "string option"
  | VList "(string \<times> val) list list" | VSet "(string \<times> val) list list"

type_synonym "structure" = "(string \<times> val) list"

definition len_structure :: "structure \<Rightarrow> nat" where
  "len_structure m = length (remdups (map fst m))"

section \<open>Diagnostics\<close>

datatype Severity = Error | Warning

record Diagnostic =
  Severity :: Severity
  Summary :: string
  Detail :: string

type_synonym Diagnostics = "Diagnostic list"

definition HasError :: "Diagnostics \<Rightarrow> bool" where
  "HasError diags = list_ex (\<lambda>x. Severity x = Error) diags"

definition FromErr :: "string \<Rightarrow> Diagnostics" where
  "FromErr err = [\<lparr>Severity = Error, Summary = err, Detail = ''''\<rparr>]"

text \<open>
  Modelled from the spec: \<^verbatim>\<open>diagsErrFromErr\<close> and \<^verbatim>\<open>diagsWarnFromErr\<close> are helpers of
  this package that are not among the sources. The spec (section 7, b) has a remote-call
  error "wrapped with an operation-specific message and surfaced"; the names give the
  severity. The message is the summary, the error's text the detail.
\<close>

definition diagsErrFromErr :: "string \<Rightarrow> string \<Rightarrow> Diagnostics" where
  "diagsErrFromErr summary err = [\<lparr>Severity = Error, Summary = summary, Detail = err\<rparr>]"

definition diagsWarnFromErr :: "string \<Rightarrow> string \<Rightarrow> Diagnostics" where
  "diagsWarnFromErr summary err = [\<lparr>Severity = Warning, Summary = summary, Detail = err\<rparr>]"

section \<open>Decimal identifiers\<close>

text \<open>
  \<^verbatim>\<open>strconv.FormatInt(i, 10)\<close> and \<^verbatim>\<open>strconv.ParseInt(s, 10, 64)\<close> on 64-bit signed
  integers: an optional sign, then decimal digits; parsing fails on an empty or non-digit
  string and on a value outside the int64 range.
\<close>

definition digit_char :: "nat \<Rightarrow> char" where
  "digit_char n = char_of (48 + n)"

definition is_digit :: "char \<Rightarrow> bool" where
  "is_digit c = (48 \<le> (of_char c :: nat) \<and> (of_char c :: nat) \<le> 57)"

definition digit_val :: "char \<Rightarrow> nat" where
  "digit_val c = of_char c - 48"

fun nat_digits :: "nat \<Rightarrow> string" where
  "nat_digits n = (if n < 10 then [digit_char n] else nat_digits (n div 10) @ [digit_char (n mod 10)])"

declare nat_digits.simps [simp del]

definition digits_val :: "string \<Rightarrow> nat" where
  "digits_val cs = foldl (\<lambda>acc c. 10 * acc + digit_val c) 0 cs"

definition FormatInt :: "int64 \<Rightarrow> string" where
  "FormatInt i = (if sint i < 0 then CHR ''-'' # nat_digits (nat (- sint i)) else nat_digits (nat (sint i)))"

definition quote :: "string \<Rightarrow> string" where
  "quote s = CHR 0x22 # concat (map (\<lambda>c. if c = CHR 0x22 \<or> c = CHR 0x5C then [CHR 0x5C, c] else [c]) s) @ [CHR 0x22]"

definition ParseInt :: "string \<Rightarrow> string + int64" where
  "ParseInt s =
     (let neg = (s \<noteq> [] \<and> hd s = CHR ''-'');
          ds = (if s \<noteq> [] \<and> (hd s = CHR ''-'' \<or> hd s = CHR ''+'') then tl s else s)
      in if ds = [] \<or> \<not> list_all is_digit ds
         then Inl (''strconv.ParseInt: parsing '' @ quote s @ '': invalid syntax'')
         else let v = (if neg then - int (digits_val ds) else int (digits_val ds))
              in if v < - (2 ^ 63) \<or> 2 ^ 63 \<le> v
                 then Inl (''strconv.ParseInt: parsing '' @ quote s @ '': value out of range'')
                 else Inr (word_of_int v))"

section \<open>The enum of anonymization types\<close>

text \<open>
  \<^verbatim>\<open>dnsZoneLoggingAnonymizationTypesStr\<close> is the canonical table from name to code.
\<close>

definition dnsZoneLoggingAnonymizationTypesStr :: "(string \<times> int) list" where
  "dnsZoneLoggingAnonymizationTypesStr = [(''remove_octet'', 0), (''drop_ip'', 1)]"

text \<open>
  Modelled from the spec: \<^verbatim>\<open>reverseStrIntMap\<close> and \<^verbatim>\<open>intStrMapGet\<close> are helpers of this
  package that are not among the sources. The spec (section 4, enum translation helper):
  "the reverse table [...] derived from it" and "lookup by name fails with unsupported
  value listing the offending input; lookup by code fails analogously". A failed lookup
  returns the zero string and the error.
\<close>

definition reverseStrIntMap :: "(string \<times> int) list \<Rightarrow> (int \<times> string) list" where
  "reverseStrIntMap m = map (\<lambda>(k, v). (v, k)) m"

definition show_int :: "int \<Rightarrow> string" where
  "show_int k = (if k < 0 then CHR ''-'' # nat_digits (nat (- k)) else nat_digits (nat k))"

definition intStrMapGet :: "(int \<times> string) list \<Rightarrow> int \<Rightarrow> string \<times> string option" where
  "intStrMapGet m k =
     (case map_of m k of
        Some v \<Rightarrow> (v, None)
      | None \<Rightarrow> ([], Some (''unsupported value: '' @ show_int k)))"

definition dnsZoneLoggingAnonymizationTypesInt :: "(int \<times> string) list" where
  "dnsZoneLoggingAnonymizationTypesInt = reverseStrIntMap dnsZoneLoggingAnonymizationTypesStr"

text \<open>
  Three identifiers that the sources use are declared nowhere in them: the key
  \<^verbatim>\<open>keyHeaders\<close> that \<^verbatim>\<open>structureFromResource\<close> reads, the lookup
  \<^verbatim>\<open>edgeRuleTriggerTypeToInt\<close> that \<^verbatim>\<open>dnsZoneUpdateFromResource\<close> calls, and the variable
  \<^verbatim>\<open>triggerType\<close> that the error message of \<^verbatim>\<open>dnsZoneLoggingAnonymizationTypeToInt\<close>
  prints. They are parameters of the model: every theorem below holds for each value of
  them unless it says otherwise. A lookup returns the code and the error, like its Go
  signature \<^verbatim>\<open>(int, error)\<close>.
\<close>

record pkg =
  keyHeaders :: string
  edgeRuleTriggerTypeToInt :: "string \<Rightarrow> int \<times> string option"
  triggerType :: string

definition dnsZoneLoggingAnonymizationTypeToInt :: "pkg \<Rightarrow> string \<Rightarrow> int \<times> string option" where
  "dnsZoneLoggingAnonymizationTypeToInt pk anonymizationType =
     (case map_of dnsZoneLoggingAnonymizationTypesStr anonymizationType of
        Some k \<Rightarrow> (k, None)
      | None \<Rightarrow> (- 1, Some (''unsupported IP anonymization type: '' @ quote (triggerType pk))))"

section \<open>The remote entity and the state document\<close>

text \<open>
  \<^verbatim>\<open>bunny.DNSZone\<close>, with the field types the sources use: \<^verbatim>\<open>ID\<close> is dereferenced and
  compared with nil (a pointer), \<^verbatim>\<open>Domain\<close> is assigned a string, the three flags are
  assigned booleans, the nameservers and the SOA e-mail are assigned string pointers, the
  anonymization type an int. \<^verbatim>\<open>dnsZoneUpdateFromResource\<close> fills a
  \<^verbatim>\<open>bunny.DNSZoneUpdateOptions\<close> and returns it as \<^verbatim>\<open>*bunny.DNSZone\<close>; the model has the
  one record for both. The field \<^verbatim>\<open>Domain\<close> is \<open>ZoneDomain\<close> here.
\<close>

record DNSZone =
  ID :: "int64 option"
  ZoneDomain :: string
  CustomNameserversEnabled :: bool
  Nameserver1 :: "string option"
  Nameserver2 :: "string option"
  SoaEmail :: "string option"
  LoggingEnabled :: bool
  LoggingIPAnonymizationEnabled :: bool
  LogAnonymizationType :: int

definition zero_DNSZone :: DNSZone where
  "zero_DNSZone = \<lparr>ID = None, ZoneDomain = [], CustomNameserversEnabled = False,
     Nameserver1 = None, Nameserver2 = None, SoaEmail = None, LoggingEnabled = False,
     LoggingIPAnonymizationEnabled = False, LogAnonymizationType = 0\<rparr>"

definition keyDnsZoneDomain :: string where
  "keyDnsZoneDomain = ''domain''"

definition keyDnsZoneCustomNameservers :: string where
  "keyDnsZoneCustomNameservers = ''custom_nameservers''"

definition keyDnsZoneCustomNameserversEnabled :: string where
  "keyDnsZoneCustomNameserversEnabled = ''enabled''"

definition keyDnsZoneCustomNameserversSoaEmail :: string where
  "keyDnsZoneCustomNameserversSoaEmail = ''soa_email''"

definition keyDnsZoneCustomNameserversNameserver1 :: string where
  "keyDnsZoneCustomNameserversNameserver1 = ''nameserver_1''"

definition keyDnsZoneCustomNameserversNameserver2 :: string where
  "keyDnsZoneCustomNameserversNameserver2 = ''nameserver_2''"

definition keyDnsZoneLogging :: string where
  "keyDnsZoneLogging = ''logging''"

definition keyDnsZoneLoggingEnabled :: string where
  "keyDnsZoneLoggingEnabled = ''enabled''"

definition keyDnsZoneLoggingIpAnonymization :: string where
  "keyDnsZoneLoggingIpAnonymization = ''ip_anonymization''"

definition keyDnsZoneLoggingIpAnonymizationEnabled :: string where
  "keyDnsZoneLoggingIpAnonymizationEnabled = ''ip_anonymization_enabled''"

definition keyLastUpdated :: string where
  "keyLastUpdated = ''last_updated''"

text \<open>
  \<^verbatim>\<open>schema.ResourceData\<close> with the schema that \<^verbatim>\<open>resourceDnsZone\<close> declares: the
  identifier, the strings \<^verbatim>\<open>domain\<close> and \<^verbatim>\<open>last_updated\<close> (\<^verbatim>\<open>schema.TypeString\<close>) and the
  blocks \<^verbatim>\<open>custom_nameservers\<close> and \<^verbatim>\<open>logging\<close>, which the schema declares as
  \<^verbatim>\<open>schema.TypeSet\<close>. \<^verbatim>\<open>d.Get\<close> of a string field returns the string, of a set field a
  \<^verbatim>\<open>*schema.Set\<close> (the value \<open>VSet\<close>, never a \<^verbatim>\<open>[]interface{}\<close>), of any key outside the
  schema nil. \<^verbatim>\<open>d.Set\<close> stores a string in a string field and the elements of a list of
  structures in a set field; it returns an error for any other key or type, leaving the
  document as it was.
\<close>

record ResourceData =
  rd_id :: string
  rd_domain :: string
  rd_custom_nameservers :: "structure list"
  rd_logging :: "structure list"
  rd_last_updated :: string

definition ResourceData_Get :: "ResourceData \<Rightarrow> string \<Rightarrow> val" where
  "ResourceData_Get d key =
     (if key = keyDnsZoneDomain then VStr (rd_domain d)
      else if key = keyDnsZoneCustomNameservers then VSet (rd_custom_nameservers d)
      else if key = keyDnsZoneLogging then VSet (rd_logging d)
      else if key = keyLastUpdated then VStr (rd_last_updated d)
      else VNil)"

definition ResourceData_Set :: "ResourceData \<Rightarrow> string \<Rightarrow> val \<Rightarrow> string + ResourceData" where
  "ResourceData_Set d key v =
     (if key = keyDnsZoneDomain then
        (case v of VStr s \<Rightarrow> Inr (d\<lparr>rd_domain := s\<rparr>) | _ \<Rightarrow> Inl (key @ '': unexpected type''))
      else if key = keyDnsZoneCustomNameservers then
        (case v of VList l \<Rightarrow> Inr (d\<lparr>rd_custom_nameservers := l\<rparr>) | _ \<Rightarrow> Inl (key @ '': unexpected type''))
      else if key = keyDnsZoneLogging then
        (case v of VList l \<Rightarrow> Inr (d\<lparr>rd_logging := l\<rparr>) | _ \<Rightarrow> Inl (key @ '': unexpected type''))
      else if key = keyLastUpdated then
        (case v of VStr s \<Rightarrow> Inr (d\<lparr>rd_last_updated := s\<rparr>) | _ \<Rightarrow> Inl (key @ '': unexpected type''))
      else Inl (''Invalid address to set: '' @ key))"

definition SetId :: "ResourceData \<Rightarrow> string \<Rightarrow> ResourceData" where
  "SetId d v = d\<lparr>rd_id := v\<rparr>"

text \<open>
  Modelled from the spec: \<^verbatim>\<open>getIDAsInt64\<close> is a helper of this package that is not among
  the sources. The spec (section 6): "Identifier on the wire is a decimal string encoding
  of a 64-bit integer".
\<close>

definition getIDAsInt64 :: "ResourceData \<Rightarrow> string + int64" where
  "getIDAsInt64 d = ParseInt (rd_id d)"

section \<open>Structures\<close>

text \<open>
  \<^verbatim>\<open>structureFromResource\<close> reads the field \<^verbatim>\<open>keyHeaders\<close>, whatever key it is passed.
  The type assertion to \<^verbatim>\<open>[]interface{}\<close> panics on a value that is not a list. Its
  comment has the blocks as a \<^verbatim>\<open>TypeList\<close>; the schema of this resource has them as
  \<^verbatim>\<open>TypeSet\<close>, and \<open>ResourceData_Get\<close> returns no list for any key.
\<close>

definition structureFromResource :: "pkg \<Rightarrow> ResourceData \<Rightarrow> string \<Rightarrow> structure exec" where
  "structureFromResource pk d key =
     (case ResourceData_Get d (keyHeaders pk) of
        VList list \<Rightarrow>
          (if length list = 0 then Return []
           else if length list \<noteq> 1
             then Panic (''expected list with length 0 or 1, got length: '' @ show_int (int (length list)))
           else Return (list ! 0))
      | _ \<Rightarrow> Panic ''interface conversion: interface {} is not []interface {}'')"

definition getBoolPtr :: "structure \<Rightarrow> string \<Rightarrow> bool option exec" where
  "getBoolPtr m key =
     (case map_of m key of
        Some (VBool b) \<Rightarrow> Return (Some b)
      | _ \<Rightarrow> Panic ''interface conversion: interface {} is not bool'')"

text \<open>
  Modelled from the spec: \<^verbatim>\<open>getStrPtr\<close> is a method of \<^verbatim>\<open>structure\<close> that is not among
  the sources. The spec has the three strings of the block "copied verbatim (all three
  required when the block is present)"; the method is written like its sibling
  \<^verbatim>\<open>getBoolPtr\<close>, with the type assertion to string.
\<close>

definition getStrPtr :: "structure \<Rightarrow> string \<Rightarrow> string option exec" where
  "getStrPtr m key =
     (case map_of m key of
        Some (VStr s) \<Rightarrow> Return (Some s)
      | _ \<Rightarrow> Panic ''interface conversion: interface {} is not string'')"

section \<open>From the document to the update payload\<close>

definition dnsZoneUpdateFromResource :: "pkg \<Rightarrow> ResourceData \<Rightarrow> (DNSZone \<times> string option) exec" where
  "dnsZoneUpdateFromResource pk d =
     (let res = zero_DNSZone in
      case structureFromResource pk d keyDnsZoneCustomNameservers of
        Panic p \<Rightarrow> Panic p
      | Return customNameservers \<Rightarrow>
     (case (if len_structure customNameservers = 0
            then Return (res\<lparr>CustomNameserversEnabled := False\<rparr>)
            else (case getStrPtr customNameservers keyDnsZoneCustomNameserversNameserver1 of
                    Panic p \<Rightarrow> Panic p
                  | Return ns1 \<Rightarrow>
                 (case getStrPtr customNameservers keyDnsZoneCustomNameserversNameserver2 of
                    Panic p \<Rightarrow> Panic p
                  | Return ns2 \<Rightarrow>
                 (case getStrPtr customNameservers keyDnsZoneCustomNameserversSoaEmail of
                    Panic p \<Rightarrow> Panic p
                  | Return soa \<Rightarrow>
                      Return (res\<lparr>CustomNameserversEnabled := True, Nameserver1 := ns1,
                                  Nameserver2 := ns2, SoaEmail := soa\<rparr>))))) of
        Panic p \<Rightarrow> Panic p
      | Return res1 \<Rightarrow>
     (case structureFromResource pk d keyDnsZoneLogging of
        Panic p \<Rightarrow> Panic p
      | Return logging \<Rightarrow>
          (if len_structure logging = 0
           then Return (res1\<lparr>LoggingEnabled := False, LoggingIPAnonymizationEnabled := False\<rparr>, None)
           else (case map_of logging keyDnsZoneLoggingIpAnonymization of
                   Some (VStr s) \<Rightarrow>
                     (case edgeRuleTriggerTypeToInt pk s of
                        (anonymizationType, Some err) \<Rightarrow>
                          Return (res1\<lparr>LoggingEnabled := True,
                                       LoggingIPAnonymizationEnabled := False\<rparr>, None)
                      | (anonymizationType, None) \<Rightarrow>
                          Return (res1\<lparr>LoggingEnabled := True,
                                       LoggingIPAnonymizationEnabled := True,
                                       LogAnonymizationType := anonymizationType\<rparr>, None))
                 | _ \<Rightarrow> Panic ''interface conversion: interface {} is not string'')))))"

section \<open>From the remote entity to the state document\<close>

text \<open>
  \<^verbatim>\<open>dnsZoneToResource\<close> writes the document field by field and stops at the first error:
  what it wrote before stays written. It returns the error, if any, and the document.
\<close>

definition customNameserversSettings :: "DNSZone \<Rightarrow> structure" where
  "customNameserversSettings dnsZone =
     AList.update keyDnsZoneCustomNameserversSoaEmail (VStrPtr (SoaEmail dnsZone))
    (AList.update keyDnsZoneCustomNameserversNameserver2 (VStrPtr (Nameserver2 dnsZone))
    (AList.update keyDnsZoneCustomNameserversNameserver1 (VStrPtr (Nameserver1 dnsZone))
    (AList.update keyDnsZoneCustomNameserversEnabled (VBool (CustomNameserversEnabled dnsZone)) [])))"

definition loggingSettings :: "DNSZone \<Rightarrow> string \<Rightarrow> structure" where
  "loggingSettings dnsZone anonymizationType =
     AList.update keyDnsZoneLoggingIpAnonymization (VStr anonymizationType)
    (AList.update keyDnsZoneLoggingIpAnonymizationEnabled (VBool (LoggingIPAnonymizationEnabled dnsZone))
    (AList.update keyDnsZoneLoggingEnabled (VBool (LoggingEnabled dnsZone)) []))"

definition dnsZoneToResource :: "DNSZone \<Rightarrow> ResourceData \<Rightarrow> string option \<times> ResourceData" where
  "dnsZoneToResource dnsZone d =
     (let d1 = (case ID dnsZone of Some i \<Rightarrow> SetId d (FormatInt i) | None \<Rightarrow> d) in
      case ResourceData_Set d1 keyDnsZoneDomain (VStr (ZoneDomain dnsZone)) of
        Inl err \<Rightarrow> (Some err, d1)
      | Inr d2 \<Rightarrow>
     (case ResourceData_Set d2 keyDnsZoneCustomNameservers (VList [customNameserversSettings dnsZone]) of
        Inl err \<Rightarrow> (Some err, d2)
      | Inr d3 \<Rightarrow>
     (case intStrMapGet dnsZoneLoggingAnonymizationTypesInt (LogAnonymizationType dnsZone) of
        (anonymizationType, Some err) \<Rightarrow> (Some (anonymizationType @ '': '' @ err), d3)
      | (anonymizationType, None) \<Rightarrow>
     (case ResourceData_Set d3 keyDnsZoneLogging (VList [loggingSettings dnsZone anonymizationType]) of
        Inl err \<Rightarrow> (Some err, d3)
      | Inr d4 \<Rightarrow> (None, d4)))))"

section \<open>The remote API client\<close>

text \<open>
  \<^verbatim>\<open>clt.DNSZone\<close> of the \<^verbatim>\<open>bunny.Client\<close>: four calls against a remote backend whose
  state has the type \<open>'b\<close>. Each call returns its result and the backend after the call.
\<close>

record 'b Client =
  DNSZone_Add :: "DNSZone \<Rightarrow> 'b \<Rightarrow> (api_error + DNSZone) \<times> 'b"
  DNSZone_Get :: "int64 \<Rightarrow> 'b \<Rightarrow> (api_error + DNSZone) \<times> 'b"
  DNSZone_Update :: "int64 \<Rightarrow> DNSZone \<Rightarrow> 'b \<Rightarrow> (api_error + DNSZone) \<times> 'b"
  DNSZone_Delete :: "int64 \<Rightarrow> 'b \<Rightarrow> api_error option \<times> 'b"

section \<open>The handlers\<close>

text \<open>
  A handler takes the document and the backend and returns the diagnostics, the document
  and the backend after it (the source mutates \<^verbatim>\<open>d\<close> in place). The strings \<open>now\<close> are
  what \<^verbatim>\<open>time.Now().Format(time.RFC850)\<close> returns at the handler's calls of it. The
  cancellation context is not modelled. The handlers are those of the file that declares
  the two blocks in its schema; the older file of the same package has the same
  \<^verbatim>\<open>resourceDnsZoneCreate\<close>. Update binds the remote response to \<^verbatim>\<open>updatedDnsZone\<close> and
  converts \<^verbatim>\<open>updatedDNSZone\<close>: the model takes the two for the one variable.

  Two handlers are written in two parts, so that the statements after a call can be
  stated for every result of the call. \<open>resourceDnsZoneUpdate_from_payload\<close> is the body
  of \<^verbatim>\<open>resourceDnsZoneUpdate\<close> after \<^verbatim>\<open>dnsZoneUpdateFromResource\<close> has returned the payload
  and its error; \<open>resourceDnsZoneCreate_after_update\<close> is the body of
  \<^verbatim>\<open>resourceDnsZoneCreate\<close> after \<^verbatim>\<open>resourceDnsZoneUpdate\<close> has returned its diagnostics.
\<close>

definition resourceDnsZoneUpdate_from_payload ::
  "'b Client \<Rightarrow> string \<Rightarrow> DNSZone \<Rightarrow> string option \<Rightarrow> ResourceData \<Rightarrow> 'b
     \<Rightarrow> (Diagnostics \<times> ResourceData \<times> 'b) exec" where
  "resourceDnsZoneUpdate_from_payload clt now dnsZone err d b =
     (case err of
        Some e \<Rightarrow> Return (diagsErrFromErr ''converting resource to API type failed'' e, d, b)
      | None \<Rightarrow>
     (case getIDAsInt64 d of
        Inl err \<Rightarrow> Return (FromErr err, d, b)
      | Inr id64 \<Rightarrow>
     (case DNSZone_Update clt id64 dnsZone b of
        (Inl err, b') \<Rightarrow>
          Return (diagsErrFromErr ''updating dns zone via API failed'' (Error_msg err), d, b')
      | (Inr updatedDnsZone, b') \<Rightarrow>
     (case dnsZoneToResource updatedDnsZone d of
        (Some err, d') \<Rightarrow>
          Return (diagsErrFromErr
                    ''converting api type to resource data after successful update failed'' err,
                  d', b')
      | (None, d') \<Rightarrow>
     (case ResourceData_Set d' keyLastUpdated (VStr now) of
        Inl err \<Rightarrow> Return (diagsWarnFromErr (''could not set '' @ keyLastUpdated) err, d', b')
      | Inr d'' \<Rightarrow> Return ([], d'', b'))))))"

definition resourceDnsZoneUpdate ::
  "pkg \<Rightarrow> 'b Client \<Rightarrow> string \<Rightarrow> ResourceData \<Rightarrow> 'b \<Rightarrow> (Diagnostics \<times> ResourceData \<times> 'b) exec" where
  "resourceDnsZoneUpdate pk clt now d b =
     (case dnsZoneUpdateFromResource pk d of
        Panic p \<Rightarrow> Panic p
      | Return (dnsZone, err) \<Rightarrow> resourceDnsZoneUpdate_from_payload clt now dnsZone err d b)"

definition resourceDnsZoneCreate_after_update ::
  "DNSZone \<Rightarrow> Diagnostics \<Rightarrow> ResourceData \<Rightarrow> 'b \<Rightarrow> (Diagnostics \<times> ResourceData \<times> 'b) exec" where
  "resourceDnsZoneCreate_after_update dnsZone diags d b =
     (if HasError diags then
        (let diags1 = diags @ [\<lparr>Severity = Error,
                 Summary = ''setting DNS zone attributes via update failed'', Detail = []\<rparr>]
         in case dnsZoneToResource dnsZone d of
              (Some err, d') \<Rightarrow>
                Return (diags1 @ [\<lparr>Severity = Error,
                   Summary = ''converting api-type to resource data failed: '' @ err,
                   Detail = []\<rparr>], d', b)
            | (None, d') \<Rightarrow> Return (diags1, d', b))
      else Return ([], d, b))"

definition resourceDnsZoneCreate ::
  "pkg \<Rightarrow> 'b Client \<Rightarrow> string \<Rightarrow> string \<Rightarrow> ResourceData \<Rightarrow> 'b
     \<Rightarrow> (Diagnostics \<times> ResourceData \<times> 'b) exec" where
  "resourceDnsZoneCreate pk clt now now' d b =
     (case ResourceData_Get d keyDnsZoneDomain of
        VStr domain \<Rightarrow>
     (case DNSZone_Add clt (zero_DNSZone\<lparr>ZoneDomain := domain\<rparr>) b of
        (Inl err, b1) \<Rightarrow>
          Return (FromErr (''creating DNS zone failed: '' @ Error_msg err), d, b1)
      | (Inr dnsZone, b1) \<Rightarrow>
     (case ID dnsZone of
        None \<Rightarrow> Panic ''invalid memory address or nil pointer dereference''
      | Some i \<Rightarrow>
     (let d1 = SetId d (FormatInt i) in
      case ResourceData_Set d1 keyLastUpdated (VStr now) of
        Inl err \<Rightarrow> Return (FromErr err, d1, b1)
      | Inr d2 \<Rightarrow>
     (case resourceDnsZoneUpdate pk clt now' d2 b1 of
        Panic p \<Rightarrow> Panic p
      | Return (diags, d3, b2) \<Rightarrow> resourceDnsZoneCreate_after_update dnsZone diags d3 b2))))
      | _ \<Rightarrow> Panic ''interface conversion: interface {} is not string'')"

definition resourceDnsZoneRead ::
  "'b Client \<Rightarrow> ResourceData \<Rightarrow> 'b \<Rightarrow> (Diagnostics \<times> ResourceData \<times> 'b) exec" where
  "resourceDnsZoneRead clt d b =
     (case getIDAsInt64 d of
        Inl err \<Rightarrow> Return (FromErr err, d, b)
      | Inr id64 \<Rightarrow>
     (case DNSZone_Get clt id64 b of
        (Inl err, b') \<Rightarrow>
          Return (diagsErrFromErr ''could not retrieve DNS zone'' (Error_msg err), d, b')
      | (Inr dnsZone, b') \<Rightarrow>
     (case dnsZoneToResource dnsZone d of
        (Some err, d') \<Rightarrow>
          Return (diagsErrFromErr
                    ''converting api type to resource data after successful read failed'' err,
                  d', b')
      | (None, d') \<Rightarrow> Return ([], d', b'))))"

definition resourceDnsZoneDelete ::
  "'b Client \<Rightarrow> ResourceData \<Rightarrow> 'b \<Rightarrow> (Diagnostics \<times> ResourceData \<times> 'b) exec" where
  "resourceDnsZoneDelete clt d b =
     (case getIDAsInt64 d of
        Inl err \<Rightarrow> Return (FromErr err, d, b)
      | Inr id64 \<Rightarrow>
     (case DNSZone_Delete clt id64 b of
        (Some err, b') \<Rightarrow>
          Return (diagsErrFromErr ''could not delete DNS zone'' (Error_msg err), d, b')
      | (None, b') \<Rightarrow> Return ([], SetId d [], b')))"

text \<open>What a caller sees of a handler's run: it failed if it panicked or returned an error.\<close>

definition failed :: "(Diagnostics \<times> ResourceData \<times> 'b) exec \<Rightarrow> bool" where
  "failed r = (case r of Panic p \<Rightarrow> True | Return (diags, d, b) \<Rightarrow> HasError diags)"

section \<open>A deterministic fake backend\<close>

text \<open>
  Modelled from the spec: the remote API collaborator of section 6 as the "deterministic
  fake remote backend" of the testable properties, which is no part of the sources. It
  keeps the zones by identifier and the next identifier to assign. \<open>fakeAdd\<close> stores a zone
  with the requested domain and everything else off; \<open>fakeUpdate\<close> overwrites the settings
  of a stored zone with the payload's, keeping identifier and domain; \<open>fakeGet\<close> returns the
  stored zone; \<open>fakeDelete\<close> removes it. A call on an identifier that is not stored
  reports not-found.
\<close>

record FakeBackend =
  zones :: "int64 \<Rightarrow> DNSZone option"
  nextID :: int64

definition fakeAdd :: "DNSZone \<Rightarrow> FakeBackend \<Rightarrow> (api_error + DNSZone) \<times> FakeBackend" where
  "fakeAdd req b =
     (let z = zero_DNSZone\<lparr>ID := Some (nextID b), ZoneDomain := ZoneDomain req\<rparr>
      in (Inr z, b\<lparr>zones := (zones b)(nextID b \<mapsto> z), nextID := nextID b + 1\<rparr>))"

definition fakeGet :: "int64 \<Rightarrow> FakeBackend \<Rightarrow> (api_error + DNSZone) \<times> FakeBackend" where
  "fakeGet i b = (case zones b i of None \<Rightarrow> (Inl NotFound, b) | Some z \<Rightarrow> (Inr z, b))"

definition fakeUpdate :: "int64 \<Rightarrow> DNSZone \<Rightarrow> FakeBackend \<Rightarrow> (api_error + DNSZone) \<times> FakeBackend" where
  "fakeUpdate i p b =
     (case zones b i of
        None \<Rightarrow> (Inl NotFound, b)
      | Some z \<Rightarrow>
          (let z' = p\<lparr>ID := Some i, ZoneDomain := ZoneDomain z\<rparr>
           in (Inr z', b\<lparr>zones := (zones b)(i \<mapsto> z')\<rparr>)))"

definition fakeDelete :: "int64 \<Rightarrow> FakeBackend \<Rightarrow> api_error option \<times> FakeBackend" where
  "fakeDelete i b =
     (case zones b i of
        None \<Rightarrow> (Some NotFound, b)
      | Some z \<Rightarrow> (None, b\<lparr>zones := (zones b)(i := None)\<rparr>))"

definition fakeClient :: "FakeBackend Client" where
  "fakeClient = \<lparr>DNSZone_Add = fakeAdd, DNSZone_Get = fakeGet, DNSZone_Update = fakeUpdate,
     DNSZone_Delete = fakeDelete\<rparr>"

section \<open>Concrete inputs\<close>

text \<open>
  Inputs for the examples below: a package whose \<^verbatim>\<open>keyHeaders\<close> is the given key and whose
  \<^verbatim>\<open>edgeRuleTriggerTypeToInt\<close> knows no name; documents with the domain only, with a
  custom-nameserver block and with a logging block of an unknown anonymization type; an
  empty backend and one that stores zone 42; a client whose get and update calls answer
  with the anonymization code 7.
\<close>

definition examplePkg :: "string \<Rightarrow> pkg" where
  "examplePkg kh = \<lparr>keyHeaders = kh,
     edgeRuleTriggerTypeToInt = (\<lambda>s. (- 1, Some (''unsupported trigger type: '' @ quote s))),
     triggerType = []\<rparr>"

definition doc0 :: ResourceData where
  "doc0 = \<lparr>rd_id = [], rd_domain = ''example.com'', rd_custom_nameservers = [],
     rd_logging = [], rd_last_updated = []\<rparr>"

definition docNameservers :: ResourceData where
  "docNameservers = doc0\<lparr>rd_custom_nameservers :=
     [[(''enabled'', VBool False), (''soa_email'', VStr ''hostmaster@example.com''),
       (''nameserver_1'', VStr ''ns1.example.com''), (''nameserver_2'', VStr ''ns2.example.com'')]]\<rparr>"

definition docLogging :: ResourceData where
  "docLogging = doc0\<lparr>rd_logging :=
     [[(''enabled'', VBool False), (''ip_anonymization_enabled'', VBool False),
       (''ip_anonymization'', VStr ''bogus'')]]\<rparr>"

definition backend0 :: FakeBackend where
  "backend0 = \<lparr>zones = (\<lambda>i. None), nextID = 42\<rparr>"

definition zone42 :: DNSZone where
  "zone42 = zero_DNSZone\<lparr>ID := Some 42, ZoneDomain := ''example.com''\<rparr>"

definition backend42 :: FakeBackend where
  "backend42 = \<lparr>zones = [42 \<mapsto> zone42], nextID = 43\<rparr>"

definition zone7 :: DNSZone where
  "zone7 = zone42\<lparr>LogAnonymizationType := 7\<rparr>"

definition code7Client :: "FakeBackend Client" where
  "code7Client =
     fakeClient\<lparr>DNSZone_Get := (\<lambda>i b. (Inr zone7, b)),
                DNSZone_Update := (\<lambda>i p b. (Inr zone7, b))\<rparr>"

text \<open>The diagnostics and the document of a handler's run that returned.\<close>

definition diagnosticsOf :: "(Diagnostics \<times> ResourceData \<times> 'b) exec \<Rightarrow> Diagnostics option" where
  "diagnosticsOf r = (case r of Panic p \<Rightarrow> None | Return (diags, d, b) \<Rightarrow> Some diags)"

definition documentOf :: "(Diagnostics \<times> ResourceData \<times> 'b) exec \<Rightarrow> ResourceData option" where
  "documentOf r = (case r of Panic p \<Rightarrow> None | Return (diags, d, b) \<Rightarrow> Some d)"

section \<open>Facts about the decimal identifiers\<close>

lemmas keys_defs = keyDnsZoneDomain_def keyDnsZoneCustomNameservers_def
  keyDnsZoneCustomNameserversEnabled_def keyDnsZoneCustomNameserversSoaEmail_def
  keyDnsZoneCustomNameserversNameserver1_def keyDnsZoneCustomNameserversNameserver2_def
  keyDnsZoneLogging_def keyDnsZoneLoggingEnabled_def keyDnsZoneLoggingIpAnonymization_def
  keyDnsZoneLoggingIpAnonymizationEnabled_def keyLastUpdated_def

lemma of_char_digit_char: "n < 10 \<Longrightarrow> (of_char (digit_char n) :: nat) = 48 + n"
  by (simp add: digit_char_def)

lemma digit_char_is_digit: "n < 10 \<Longrightarrow> is_digit (digit_char n)"
  by (simp add: is_digit_def of_char_digit_char)

lemma digit_val_digit_char: "n < 10 \<Longrightarrow> digit_val (digit_char n) = n"
  by (simp add: digit_val_def of_char_digit_char)

lemma is_digit_not_sign: "is_digit c \<Longrightarrow> c \<noteq> CHR ''-'' \<and> c \<noteq> CHR ''+''"
  by (auto simp: is_digit_def)

lemma nat_digits_all_digits: "list_all is_digit (nat_digits n)"
proof (induction n rule: nat_digits.induct)
  case (1 n)
  show ?case
  proof (cases "n < 10")
    case True
    then show ?thesis by (simp add: nat_digits.simps [of n] digit_char_is_digit)
  next
    case False
    with 1 show ?thesis by (simp add: nat_digits.simps [of n] digit_char_is_digit)
  qed
qed

lemma nat_digits_nonempty: "nat_digits n \<noteq> []"
  by (simp add: nat_digits.simps [of n])

lemma digits_val_snoc: "digits_val (cs @ [c]) = 10 * digits_val cs + digit_val c"
  by (simp add: digits_val_def)

lemma digits_val_nat_digits: "digits_val (nat_digits n) = n"
proof (induction n rule: nat_digits.induct)
  case (1 n)
  show ?case
  proof (cases "n < 10")
    case True
    then show ?thesis by (simp add: nat_digits.simps [of n] digits_val_def digit_val_digit_char)
  next
    case False
    with 1 have "digits_val (nat_digits (n div 10)) = n div 10" by simp
    with False show ?thesis
      by (simp add: nat_digits.simps [of n] digits_val_snoc digit_val_digit_char)
  qed
qed

lemma hd_nat_digits_not_sign: "hd (nat_digits n) \<noteq> CHR ''-'' \<and> hd (nat_digits n) \<noteq> CHR ''+''"
proof -
  have "is_digit (hd (nat_digits n))"
    using nat_digits_all_digits [of n] nat_digits_nonempty [of n]
    by (cases "nat_digits n") simp_all
  then show ?thesis by (rule is_digit_not_sign)
qed

lemma ParseInt_FormatInt: "ParseInt (FormatInt i) = Inr i"
proof (cases "sint i < 0")
  case True
  have lo: "- (2 ^ 63) \<le> sint i" using sint_ge [of i] by simp
  have v: "- int (digits_val (nat_digits (nat (- sint i)))) = sint i"
    using True by (simp add: digits_val_nat_digits)
  show ?thesis
    using True lo
    by (simp add: ParseInt_def FormatInt_def Let_def nat_digits_nonempty nat_digits_all_digits v)
next
  case False
  have hi: "sint i < 2 ^ 63" using sint_lt [of i] by simp
  have v: "int (digits_val (nat_digits (nat (sint i)))) = sint i"
    using False by (simp add: digits_val_nat_digits)
  show ?thesis
    using False hi hd_nat_digits_not_sign [of "nat (sint i)"]
    by (simp add: ParseInt_def FormatInt_def Let_def nat_digits_nonempty nat_digits_all_digits v)
qed

section \<open>Facts about the state document and the diagnostics\<close>

lemma Set_domain: "ResourceData_Set d keyDnsZoneDomain (VStr s) = Inr (d\<lparr>rd_domain := s\<rparr>)"
  by (simp add: ResourceData_Set_def)

lemma Set_custom_nameservers:
  "ResourceData_Set d keyDnsZoneCustomNameservers (VList l) = Inr (d\<lparr>rd_custom_nameservers := l\<rparr>)"
  by (simp add: ResourceData_Set_def keys_defs)

lemma Set_logging: "ResourceData_Set d keyDnsZoneLogging (VList l) = Inr (d\<lparr>rd_logging := l\<rparr>)"
  by (simp add: ResourceData_Set_def keys_defs)

lemma Set_last_updated: "ResourceData_Set d keyLastUpdated (VStr s) = Inr (d\<lparr>rd_last_updated := s\<rparr>)"
  by (simp add: ResourceData_Set_def keys_defs)

lemma Get_domain: "ResourceData_Get d keyDnsZoneDomain = VStr (rd_domain d)"
  by (simp add: ResourceData_Get_def)

lemma intStrMapGet_codes:
  "intStrMapGet dnsZoneLoggingAnonymizationTypesInt k =
     (if k = 0 then (''remove_octet'', None)
      else if k = 1 then (''drop_ip'', None)
      else ([], Some (''unsupported value: '' @ show_int k)))"
  by (simp add: intStrMapGet_def dnsZoneLoggingAnonymizationTypesInt_def reverseStrIntMap_def
      dnsZoneLoggingAnonymizationTypesStr_def)

lemma dnsZoneToResource_known:
  assumes "LogAnonymizationType z = 0 \<or> LogAnonymizationType z = 1"
  shows "dnsZoneToResource z d =
     (None, d\<lparr>rd_id := (case ID z of Some i \<Rightarrow> FormatInt i | None \<Rightarrow> rd_id d),
              rd_domain := ZoneDomain z,
              rd_custom_nameservers := [customNameserversSettings z],
              rd_logging := [loggingSettings z
                 (if LogAnonymizationType z = 0 then ''remove_octet'' else ''drop_ip'')]\<rparr>)"
  using assms
  by (auto simp: dnsZoneToResource_def Let_def Set_domain Set_custom_nameservers Set_logging
      intStrMapGet_codes SetId_def split: option.splits)

lemma dnsZoneToResource_unknown:
  assumes "LogAnonymizationType z \<noteq> 0" and "LogAnonymizationType z \<noteq> 1"
  shows "dnsZoneToResource z d =
     (Some ('': unsupported value: '' @ show_int (LogAnonymizationType z)),
      d\<lparr>rd_id := (case ID z of Some i \<Rightarrow> FormatInt i | None \<Rightarrow> rd_id d),
        rd_domain := ZoneDomain z,
        rd_custom_nameservers := [customNameserversSettings z]\<rparr>)"
  using assms
  by (auto simp: dnsZoneToResource_def Let_def Set_domain Set_custom_nameservers
      intStrMapGet_codes SetId_def split: option.splits)

lemma HasError_diagsErrFromErr: "HasError (diagsErrFromErr s e)"
  by (simp add: HasError_def diagsErrFromErr_def)

lemma HasError_FromErr: "HasError (FromErr e)"
  by (simp add: HasError_def FromErr_def)


lemma HasError_Nil: "\<not> HasError []"
  by (simp add: HasError_def)

lemma FormatInt_42: "FormatInt 42 = ''42''"
  by code_simp

lemma ParseInt_42: "ParseInt ''42'' = Inr 42"
  using ParseInt_FormatInt [of 42] by (simp add: FormatInt_42)

lemma ParseInt_empty: "\<exists>e. ParseInt [] = Inl e"
  by (simp add: ParseInt_def)

lemma getID_42: "getIDAsInt64 (d\<lparr>rd_id := ''42''\<rparr>) = Inr 42"
  by (simp add: getIDAsInt64_def ParseInt_42)

section \<open>No payload is built\<close>

text \<open>
  \<^verbatim>\<open>d.Get\<close> returns a list for no key of this schema, so the type assertion of
  \<^verbatim>\<open>structureFromResource\<close> panics for every document and every \<^verbatim>\<open>keyHeaders\<close>, and with
  it \<^verbatim>\<open>dnsZoneUpdateFromResource\<close> and \<^verbatim>\<open>resourceDnsZoneUpdate\<close>, before any remote call.
\<close>

lemma structureFromResource_key: "structureFromResource pk d key = structureFromResource pk d key'"
  by (simp add: structureFromResource_def)

lemma structureFromResource_panics:
  "structureFromResource pk d key = Panic ''interface conversion: interface {} is not []interface {}''"
  by (simp add: structureFromResource_def ResourceData_Get_def)

lemma payload_panics:
  "dnsZoneUpdateFromResource pk d = Panic ''interface conversion: interface {} is not []interface {}''"
  by (simp add: dnsZoneUpdateFromResource_def structureFromResource_panics)

lemma update_panics:
  "resourceDnsZoneUpdate pk clt now d b = Panic ''interface conversion: interface {} is not []interface {}''"
  by (simp add: resourceDnsZoneUpdate_def payload_panics)

lemma create_after_add:
  assumes "DNSZone_Add clt (zero_DNSZone\<lparr>ZoneDomain := rd_domain d\<rparr>) b = (Inr z, b1)"
    and "ID z = Some i"
  shows "resourceDnsZoneCreate pk clt now now' d b
           = Panic ''interface conversion: interface {} is not []interface {}''"
  using assms
  by (simp add: resourceDnsZoneCreate_def Get_domain SetId_def Set_last_updated update_panics)

lemma zone42_fields: "ID zone42 = Some 42" "LogAnonymizationType zone42 = 0"
  "ZoneDomain zone42 = ''example.com''"
  by (simp_all add: zone42_def zero_DNSZone_def)

lemma example_add:
  "DNSZone_Add fakeClient (zero_DNSZone\<lparr>ZoneDomain := rd_domain doc0\<rparr>) backend0
     = (Inr zone42, backend42)"
  by (simp add: fakeClient_def fakeAdd_def backend0_def backend42_def zone42_def doc0_def Let_def)

section \<open>Delete\<close>

text \<open>
  Claim C1, as the code has it: when the remote delete call reports not-found, Delete
  returns the error-level diagnostic "could not delete DNS zone" and leaves the document,
  identifier included, as it was: not-found is not treated as success. Delete returns
  without error only when the identifier parses and the remote call returned no error,
  and then it has cleared the identifier. Against the fake backend, a Delete of a stored
  zone succeeds and clears the identifier, and a second Delete fails, both on the same
  identifier (the backend reports not-found) and on the document the first one returned
  (the cleared identifier does not parse).
\<close>

theorem delete_not_found_is_error:
  assumes "getIDAsInt64 d = Inr i"
    and "DNSZone_Delete clt i b = (Some NotFound, b')"
    and "zones fb i = Some z"
  shows "resourceDnsZoneDelete clt d b
           = Return (diagsErrFromErr ''could not delete DNS zone'' (Error_msg NotFound), d, b')
       \<and> failed (resourceDnsZoneDelete clt d b)
       \<and> (\<exists>fb'. resourceDnsZoneDelete fakeClient d fb = Return ([], SetId d [], fb')
             \<and> failed (resourceDnsZoneDelete fakeClient d fb')
             \<and> failed (resourceDnsZoneDelete fakeClient (SetId d []) fb'))
       \<and> (\<not> failed (resourceDnsZoneDelete clt2 d2 b2) \<longrightarrow>
             (\<exists>j b3. getIDAsInt64 d2 = Inr j \<and> DNSZone_Delete clt2 j b2 = (None, b3)
                \<and> resourceDnsZoneDelete clt2 d2 b2 = Return ([], SetId d2 [], b3)))"
proof -
  have first: "resourceDnsZoneDelete clt d b
      = Return (diagsErrFromErr ''could not delete DNS zone'' (Error_msg NotFound), d, b')"
    using assms(1,2) by (simp add: resourceDnsZoneDelete_def)
  then have f: "failed (resourceDnsZoneDelete clt d b)"
    by (simp add: failed_def HasError_diagsErrFromErr)
  let ?fb' = "fb\<lparr>zones := (zones fb)(i := None)\<rparr>"
  have d1: "resourceDnsZoneDelete fakeClient d fb = Return ([], SetId d [], ?fb')"
    using assms(1,3) by (simp add: resourceDnsZoneDelete_def fakeClient_def fakeDelete_def)
  have d2: "failed (resourceDnsZoneDelete fakeClient d ?fb')"
    using assms(1)
    by (simp add: resourceDnsZoneDelete_def fakeClient_def fakeDelete_def failed_def
        HasError_diagsErrFromErr)
  obtain e where e: "ParseInt [] = Inl e" using ParseInt_empty by blast
  have d3: "failed (resourceDnsZoneDelete fakeClient (SetId d []) ?fb')"
    by (simp add: resourceDnsZoneDelete_def getIDAsInt64_def SetId_def e failed_def HasError_FromErr)
  have conv: "\<not> failed (resourceDnsZoneDelete clt2 d2 b2) \<longrightarrow>
             (\<exists>j b3. getIDAsInt64 d2 = Inr j \<and> DNSZone_Delete clt2 j b2 = (None, b3)
                \<and> resourceDnsZoneDelete clt2 d2 b2 = Return ([], SetId d2 [], b3))"
    by (auto simp: resourceDnsZoneDelete_def failed_def HasError_diagsErrFromErr HasError_FromErr
        split: sum.splits prod.splits option.splits)
  from first f d1 d2 d3 conv show ?thesis by blast
qed

text \<open>
  The theorem at the document with identifier 42: the empty backend reports not-found,
  and the Delete against the backend that stores zone 42 is a run without error.
\<close>

theorem delete_not_found_is_error_witness:
  "getIDAsInt64 (doc0\<lparr>rd_id := ''42''\<rparr>) = Inr 42
   \<and> DNSZone_Delete fakeClient 42 backend0 = (Some NotFound, backend0)
   \<and> zones backend42 42 = Some zone42
   \<and> \<not> failed (resourceDnsZoneDelete fakeClient (doc0\<lparr>rd_id := ''42''\<rparr>) backend42)
   \<and> resourceDnsZoneDelete fakeClient (doc0\<lparr>rd_id := ''42''\<rparr>) backend0
       = Return (diagsErrFromErr ''could not delete DNS zone'' (Error_msg NotFound),
                 doc0\<lparr>rd_id := ''42''\<rparr>, backend0)
   \<and> failed (resourceDnsZoneDelete fakeClient (doc0\<lparr>rd_id := ''42''\<rparr>) backend0)
   \<and> (\<exists>fb'. resourceDnsZoneDelete fakeClient (doc0\<lparr>rd_id := ''42''\<rparr>) backend42
               = Return ([], SetId (doc0\<lparr>rd_id := ''42''\<rparr>) [], fb')
         \<and> failed (resourceDnsZoneDelete fakeClient (doc0\<lparr>rd_id := ''42''\<rparr>) fb')
         \<and> failed (resourceDnsZoneDelete fakeClient (SetId (doc0\<lparr>rd_id := ''42''\<rparr>) []) fb'))
   \<and> (\<exists>j b3. getIDAsInt64 (doc0\<lparr>rd_id := ''42''\<rparr>) = Inr j
         \<and> DNSZone_Delete fakeClient j backend42 = (None, b3)
         \<and> resourceDnsZoneDelete fakeClient (doc0\<lparr>rd_id := ''42''\<rparr>) backend42
             = Return ([], SetId (doc0\<lparr>rd_id := ''42''\<rparr>) [], b3))"
proof -
  have h1: "getIDAsInt64 (doc0\<lparr>rd_id := ''42''\<rparr>) = Inr 42" by (rule getID_42)
  have h2: "DNSZone_Delete fakeClient 42 backend0 = (Some NotFound, backend0)"
    by (simp add: fakeClient_def fakeDelete_def backend0_def)
  have h3: "zones backend42 42 = Some zone42" by (simp add: backend42_def)
  have h4: "\<not> failed (resourceDnsZoneDelete fakeClient (doc0\<lparr>rd_id := ''42''\<rparr>) backend42)"
    by (simp add: resourceDnsZoneDelete_def getID_42 fakeClient_def fakeDelete_def backend42_def
        failed_def HasError_Nil)
  from delete_not_found_is_error [OF h1 h2 h3,
      where ?clt2.0 = fakeClient and ?d2.0 = "doc0\<lparr>rd_id := ''42''\<rparr>" and ?b2.0 = backend42]
    h1 h2 h3 h4
  show ?thesis by blast
qed

text \<open>
  Claim C1 as stated fails: the empty fake backend reports not-found for zone 42 and
  Delete fails; and after a Delete that succeeded on the backend storing zone 42, a second
  Delete of the same identifier fails.
\<close>

theorem delete_twice_counterexample:
  "fst (DNSZone_Delete fakeClient 42 backend0) = Some NotFound
   \<and> failed (resourceDnsZoneDelete fakeClient (doc0\<lparr>rd_id := ''42''\<rparr>) backend0)
   \<and> resourceDnsZoneDelete fakeClient (doc0\<lparr>rd_id := ''42''\<rparr>) backend42
       = Return ([], doc0\<lparr>rd_id := []\<rparr>, backend42\<lparr>zones := (zones backend42)(42 := None)\<rparr>)
   \<and> failed (resourceDnsZoneDelete fakeClient (doc0\<lparr>rd_id := ''42''\<rparr>)
               (backend42\<lparr>zones := (zones backend42)(42 := None)\<rparr>))"
  by (simp add: resourceDnsZoneDelete_def getID_42 fakeClient_def fakeDelete_def backend0_def
      backend42_def failed_def HasError_diagsErrFromErr SetId_def)

section \<open>Create and its follow-up Update\<close>

lemma after_update_error:
  assumes "HasError diags"
  shows "resourceDnsZoneCreate_after_update z diags d3 b2 =
     (case dnsZoneToResource z d3 of
        (Some err, d4) \<Rightarrow>
          Return (diags @ [\<lparr>Severity = Error,
                     Summary = ''setting DNS zone attributes via update failed'', Detail = []\<rparr>,
                   \<lparr>Severity = Error,
                     Summary = ''converting api-type to resource data failed: '' @ err,
                     Detail = []\<rparr>], d4, b2)
      | (None, d4) \<Rightarrow>
          Return (diags @ [\<lparr>Severity = Error,
                     Summary = ''setting DNS zone attributes via update failed'', Detail = []\<rparr>],
                  d4, b2))"
  using assms
  by (simp add: resourceDnsZoneCreate_after_update_def Let_def split: prod.splits option.splits)




text \<open>
  By design the statements of Create that follow a failed Update fill the document from
  the create response: with a known anonymization code in the response, the document has
  the response's identifier and domain and the two blocks written from it, key by key.
\<close>

lemma after_update_populates:
  assumes "HasError diags" and "ID z = Some i"
    and "LogAnonymizationType z = 0 \<or> LogAnonymizationType z = 1"
  shows "documentOf (resourceDnsZoneCreate_after_update z diags d3 b2) =
     Some (d3\<lparr>rd_id := FormatInt i, rd_domain := ZoneDomain z,
       rd_custom_nameservers :=
         [[(''enabled'', VBool (CustomNameserversEnabled z)),
           (''nameserver_1'', VStrPtr (Nameserver1 z)),
           (''nameserver_2'', VStrPtr (Nameserver2 z)),
           (''soa_email'', VStrPtr (SoaEmail z))]],
       rd_logging :=
         [[(''enabled'', VBool (LoggingEnabled z)),
           (''ip_anonymization_enabled'', VBool (LoggingIPAnonymizationEnabled z)),
           (''ip_anonymization'',
            VStr (if LogAnonymizationType z = 0 then ''remove_octet'' else ''drop_ip''))]]\<rparr>)"
  using assms
  by (auto simp: after_update_error dnsZoneToResource_known documentOf_def
      customNameserversSettings_def loggingSettings_def keys_defs)

text \<open>
  Claim C3 fails on the code. The create call has succeeded and its identifier is set in
  the document, and the follow-up Update, run on that document, panics in
  \<^verbatim>\<open>structureFromResource\<close>; Create panics with it, before the statements that would fill
  the document from the create response: no document is returned.
\<close>

theorem create_panics_after_add:
  assumes "DNSZone_Add clt (zero_DNSZone\<lparr>ZoneDomain := rd_domain d\<rparr>) b = (Inr z, b1)"
    and "ID z = Some i"
  shows "resourceDnsZoneUpdate pk clt now' (d\<lparr>rd_id := FormatInt i, rd_last_updated := now\<rparr>) b1
           = Panic ''interface conversion: interface {} is not []interface {}''
       \<and> resourceDnsZoneCreate pk clt now now' d b
           = Panic ''interface conversion: interface {} is not []interface {}''
       \<and> documentOf (resourceDnsZoneCreate pk clt now now' d b) = None"
  using create_after_add [OF assms, of pk now now']
  by (simp add: update_panics documentOf_def)

text \<open>The theorem at the domain-only document and the empty fake backend.\<close>

theorem create_panics_after_add_witness:
  "DNSZone_Add fakeClient (zero_DNSZone\<lparr>ZoneDomain := rd_domain doc0\<rparr>) backend0
       = (Inr zone42, backend42)
   \<and> ID zone42 = Some 42
   \<and> resourceDnsZoneUpdate (examplePkg ''custom_nameservers'') fakeClient ''t2''
         (doc0\<lparr>rd_id := FormatInt 42, rd_last_updated := ''t1''\<rparr>) backend42
       = Panic ''interface conversion: interface {} is not []interface {}''
   \<and> resourceDnsZoneCreate (examplePkg ''custom_nameservers'') fakeClient ''t1'' ''t2'' doc0 backend0
       = Panic ''interface conversion: interface {} is not []interface {}''
   \<and> documentOf (resourceDnsZoneCreate (examplePkg ''custom_nameservers'') fakeClient ''t1'' ''t2''
         doc0 backend0) = None"
  using create_panics_after_add [OF example_add zone42_fields(1),
      of "examplePkg ''custom_nameservers''" "''t2''" "''t1''"]
    example_add zone42_fields(1)
  by blast
section \<open>Read\<close>

lemma FormatInt_999: "FormatInt 999 = ''999''"
  by code_simp

lemma getID_999: "getIDAsInt64 (d\<lparr>rd_id := ''999''\<rparr>) = Inr 999"
  using ParseInt_FormatInt [of 999] by (simp add: getIDAsInt64_def FormatInt_999)

text \<open>
  Claim C4, as the code has it: when the remote get call reports an error, not-found
  included, Read returns one error-level diagnostic with the summary "could not retrieve
  DNS zone" and the remote error's text as its detail, and leaves the document, identifier
  included, as it was. Not-found is reported like any other remote error, and Read has
  failed for its caller.
\<close>

theorem read_remote_error_is_generic:
  assumes "getIDAsInt64 d = Inr i"
    and "DNSZone_Get clt i b = (Inl e, b')"
  shows "resourceDnsZoneRead clt d b
           = Return ([\<lparr>Severity = Error, Summary = ''could not retrieve DNS zone'',
                       Detail = Error_msg e\<rparr>], d, b')
       \<and> failed (resourceDnsZoneRead clt d b)"
  using assms
  by (simp add: resourceDnsZoneRead_def diagsErrFromErr_def failed_def HasError_def)

text \<open>The theorem at the identifier 999, which the empty fake backend does not store.\<close>

theorem read_remote_error_is_generic_witness:
  "getIDAsInt64 (doc0\<lparr>rd_id := ''999''\<rparr>) = Inr 999
   \<and> DNSZone_Get fakeClient 999 backend0 = (Inl NotFound, backend0)
   \<and> resourceDnsZoneRead fakeClient (doc0\<lparr>rd_id := ''999''\<rparr>) backend0
           = Return ([\<lparr>Severity = Error, Summary = ''could not retrieve DNS zone'',
                       Detail = Error_msg NotFound\<rparr>], doc0\<lparr>rd_id := ''999''\<rparr>, backend0)
   \<and> failed (resourceDnsZoneRead fakeClient (doc0\<lparr>rd_id := ''999''\<rparr>) backend0)"
proof -
  have h1: "getIDAsInt64 (doc0\<lparr>rd_id := ''999''\<rparr>) = Inr 999" by (rule getID_999)
  have h2: "DNSZone_Get fakeClient 999 backend0 = (Inl NotFound, backend0)"
    by (simp add: fakeClient_def fakeGet_def backend0_def)
  from read_remote_error_is_generic [OF h1 h2] h1 h2
  show ?thesis by blast
qed

text \<open>
  Claim C4 as stated fails: Read of the identifier 999 against a backend that reports
  not-found fails with the same error diagnostic as for any remote failure, and the
  document keeps its identifier.
\<close>

theorem read_gone_counterexample:
  "fst (DNSZone_Get fakeClient 999 backend0) = Inl NotFound
   \<and> failed (resourceDnsZoneRead fakeClient (doc0\<lparr>rd_id := ''999''\<rparr>) backend0)
   \<and> diagnosticsOf (resourceDnsZoneRead fakeClient (doc0\<lparr>rd_id := ''999''\<rparr>) backend0)
       = Some (diagsErrFromErr ''could not retrieve DNS zone'' ''Not Found'')
   \<and> documentOf (resourceDnsZoneRead fakeClient (doc0\<lparr>rd_id := ''999''\<rparr>) backend0)
       = Some (doc0\<lparr>rd_id := ''999''\<rparr>)"
  by (simp add: resourceDnsZoneRead_def getID_999 fakeClient_def fakeGet_def backend0_def
      failed_def HasError_diagsErrFromErr diagnosticsOf_def documentOf_def)

section \<open>Update\<close>



section \<open>An unknown anonymization code in a remote response\<close>

lemma zone7_code: "LogAnonymizationType zone7 = 7"
  by (simp add: zone7_def)

text \<open>
  Claim C10: when a zone carries an anonymization code other than 0 and 1,
  \<^verbatim>\<open>dnsZoneToResource\<close> returns an error for it on every document. A Read whose remote get
  call returned that zone reports failure, with the error-level diagnostic of the failed
  conversion, although the remote call succeeded. So do the statements of Update that
  follow the building of the payload, for every payload, when the remote update call
  returned that zone. There is no fallback for the code as there is for the name. (An
  Update as a whole fails on every input, before its remote call, see \<open>update_panics\<close>.)
\<close>

theorem unknown_code_fails_read_and_update:
  assumes "LogAnonymizationType z \<noteq> 0" and "LogAnonymizationType z \<noteq> 1"
  shows "fst (dnsZoneToResource z d0) = Some ('': unsupported value: '' @ show_int (LogAnonymizationType z))
       \<and> (getIDAsInt64 d = Inr i \<and> DNSZone_Get clt i b = (Inr z, b') \<longrightarrow>
            failed (resourceDnsZoneRead clt d b)
            \<and> diagnosticsOf (resourceDnsZoneRead clt d b)
                = Some (diagsErrFromErr ''converting api type to resource data after successful read failed''
                          ('': unsupported value: '' @ show_int (LogAnonymizationType z))))
       \<and> (getIDAsInt64 d2 = Inr j \<and> DNSZone_Update clt2 j p b2 = (Inr z, b2') \<longrightarrow>
            failed (resourceDnsZoneUpdate_from_payload clt2 now p None d2 b2)
            \<and> diagnosticsOf (resourceDnsZoneUpdate_from_payload clt2 now p None d2 b2)
                = Some (diagsErrFromErr ''converting api type to resource data after successful update failed''
                          ('': unsupported value: '' @ show_int (LogAnonymizationType z))))
       \<and> failed (resourceDnsZoneUpdate pk clt2 now d2 b2)"
  using assms
  by (simp add: resourceDnsZoneRead_def resourceDnsZoneUpdate_from_payload_def
      dnsZoneToResource_unknown failed_def HasError_diagsErrFromErr diagnosticsOf_def update_panics)

text \<open>
  The theorem at the document with identifier 42 and the client that answers get and
  update with the anonymization code 7.
\<close>

theorem unknown_code_fails_read_and_update_witness:
  "LogAnonymizationType zone7 \<noteq> 0 \<and> LogAnonymizationType zone7 \<noteq> 1
   \<and> getIDAsInt64 (doc0\<lparr>rd_id := ''42''\<rparr>) = Inr 42
   \<and> DNSZone_Get code7Client 42 backend42 = (Inr zone7, backend42)
   \<and> DNSZone_Update code7Client 42 zero_DNSZone backend42 = (Inr zone7, backend42)
   \<and> fst (dnsZoneToResource zone7 doc0) = Some ('': unsupported value: '' @ show_int 7)
   \<and> failed (resourceDnsZoneRead code7Client (doc0\<lparr>rd_id := ''42''\<rparr>) backend42)
   \<and> diagnosticsOf (resourceDnsZoneRead code7Client (doc0\<lparr>rd_id := ''42''\<rparr>) backend42)
       = Some (diagsErrFromErr ''converting api type to resource data after successful read failed''
                 ('': unsupported value: '' @ show_int 7))
   \<and> failed (resourceDnsZoneUpdate_from_payload code7Client ''t2'' zero_DNSZone None
               (doc0\<lparr>rd_id := ''42''\<rparr>) backend42)
   \<and> diagnosticsOf (resourceDnsZoneUpdate_from_payload code7Client ''t2'' zero_DNSZone None
               (doc0\<lparr>rd_id := ''42''\<rparr>) backend42)
       = Some (diagsErrFromErr ''converting api type to resource data after successful update failed''
                 ('': unsupported value: '' @ show_int 7))"
proof -
  have h1: "LogAnonymizationType zone7 \<noteq> 0" and h2: "LogAnonymizationType zone7 \<noteq> 1"
    by (simp_all add: zone7_code)
  have h3: "getIDAsInt64 (doc0\<lparr>rd_id := ''42''\<rparr>) = Inr 42" by (rule getID_42)
  have h4: "DNSZone_Get code7Client 42 backend42 = (Inr zone7, backend42)"
    by (simp add: code7Client_def)
  have h5: "DNSZone_Update code7Client 42 zero_DNSZone backend42 = (Inr zone7, backend42)"
    by (simp add: code7Client_def)
  from unknown_code_fails_read_and_update [OF h1 h2,
      where ?d0.0 = doc0 and d = "doc0\<lparr>rd_id := ''42''\<rparr>" and i = 42 and clt = code7Client
        and b = backend42 and b' = backend42 and ?d2.0 = "doc0\<lparr>rd_id := ''42''\<rparr>" and j = 42
        and ?clt2.0 = code7Client and p = zero_DNSZone and ?b2.0 = backend42 and ?b2' = backend42
        and now = "''t2''"]
    h1 h2 h3 h4 h5
  show ?thesis by (simp add: zone7_code)
qed

section \<open>The update payload\<close>

text \<open>
  Claim C5 fails on the code: \<^verbatim>\<open>structureFromResource\<close> reads the field \<^verbatim>\<open>keyHeaders\<close>
  for both blocks and asserts a list, which \<^verbatim>\<open>d.Get\<close> returns for no key of this schema.
  For the document whose custom-nameserver block is present (and whose logging block is
  absent), whatever \<^verbatim>\<open>keyHeaders\<close> and \<^verbatim>\<open>edgeRuleTriggerTypeToInt\<close> are,
  \<^verbatim>\<open>dnsZoneUpdateFromResource\<close> returns no payload with custom nameservers enabled: it
  panics.
\<close>

theorem nameserver_block_never_enabled:
  "dnsZoneUpdateFromResource pk docNameservers \<noteq> Return (p\<lparr>CustomNameserversEnabled := True\<rparr>, e)"
  by (simp add: payload_panics)

text \<open>
  Claim C6 fails on the code, by the same defect: for the document whose logging block is
  present with an unknown anonymization type (and whose custom-nameserver block is
  absent), whatever \<^verbatim>\<open>keyHeaders\<close> and \<^verbatim>\<open>edgeRuleTriggerTypeToInt\<close> are,
  \<^verbatim>\<open>dnsZoneUpdateFromResource\<close> returns no payload with logging enabled: it panics.
\<close>

theorem logging_block_never_enabled:
  "dnsZoneUpdateFromResource pk docLogging \<noteq> Return (p\<lparr>LoggingEnabled := True\<rparr>, e)"
  by (simp add: payload_panics)

text \<open>The two documents under a package whose \<^verbatim>\<open>keyHeaders\<close> is no field of the schema and under packages whose \<^verbatim>\<open>keyHeaders\<close> is a block.\<close>

lemma payload_examples:
  "dnsZoneUpdateFromResource (examplePkg ''headers'') docNameservers
     = Panic ''interface conversion: interface {} is not []interface {}''"
  "dnsZoneUpdateFromResource (examplePkg ''headers'') docLogging
     = Panic ''interface conversion: interface {} is not []interface {}''"
  "dnsZoneUpdateFromResource (examplePkg ''custom_nameservers'') docNameservers
     = Panic ''interface conversion: interface {} is not []interface {}''"
  "dnsZoneUpdateFromResource (examplePkg ''logging'') docLogging
     = Panic ''interface conversion: interface {} is not []interface {}''"
  by (simp_all add: payload_panics)
section \<open>The enum of anonymization types, facts\<close>

lemma anonymization_table:
  "dnsZoneLoggingAnonymizationTypeToInt pk ''remove_octet'' = (0, None)"
  "dnsZoneLoggingAnonymizationTypeToInt pk ''drop_ip'' = (1, None)"
  "map fst dnsZoneLoggingAnonymizationTypesStr = [''remove_octet'', ''drop_ip'']"
  by (simp_all add: dnsZoneLoggingAnonymizationTypeToInt_def dnsZoneLoggingAnonymizationTypesStr_def)

lemma anonymization_round_trip:
  assumes "name = ''remove_octet'' \<or> name = ''drop_ip''"
  shows "snd (dnsZoneLoggingAnonymizationTypeToInt pk name) = None
       \<and> intStrMapGet dnsZoneLoggingAnonymizationTypesInt
            (fst (dnsZoneLoggingAnonymizationTypeToInt pk name)) = (name, None)"
  using assms by (auto simp: anonymization_table intStrMapGet_codes)

lemma anonymization_lookup_fails:
  "(snd (dnsZoneLoggingAnonymizationTypeToInt pk s) \<noteq> None) = (s \<noteq> ''remove_octet'' \<and> s \<noteq> ''drop_ip'')"
  by (simp add: dnsZoneLoggingAnonymizationTypeToInt_def dnsZoneLoggingAnonymizationTypesStr_def)

text \<open>
  Claim C8 fails on the code in its last part: for a string that is neither of the two
  names, the lookup fails, but its error message quotes the variable \<^verbatim>\<open>triggerType\<close>,
  not the argument \<^verbatim>\<open>anonymizationType\<close>: the message is the same for every rejected
  input and does not name it.
\<close>

theorem anonymization_error_ignores_input:
  assumes "s \<noteq> ''remove_octet''" and "s \<noteq> ''drop_ip''"
  shows "dnsZoneLoggingAnonymizationTypeToInt pk s
           = (- 1, Some (''unsupported IP anonymization type: '' @ quote (triggerType pk)))"
  using assms
  by (simp add: dnsZoneLoggingAnonymizationTypeToInt_def dnsZoneLoggingAnonymizationTypesStr_def)

text \<open>The theorem at the input "bogus": the message quotes the empty string.\<close>

theorem anonymization_error_ignores_input_witness:
  "''bogus'' \<noteq> ''remove_octet'' \<and> ''bogus'' \<noteq> ''drop_ip''
   \<and> dnsZoneLoggingAnonymizationTypeToInt (examplePkg ''headers'') ''bogus''
       = (- 1, Some (''unsupported IP anonymization type: '' @ [CHR 0x22, CHR 0x22]))
   \<and> \<not> sublist ''bogus'' (''unsupported IP anonymization type: '' @ [CHR 0x22, CHR 0x22])"
proof -
  have h1: "''bogus'' \<noteq> ''remove_octet''" and h2: "''bogus'' \<noteq> ''drop_ip''" by simp_all
  have q: "quote (triggerType (examplePkg ''headers'')) = [CHR 0x22, CHR 0x22]"
    by (simp add: quote_def examplePkg_def)
  have n: "\<not> sublist ''bogus'' (''unsupported IP anonymization type: '' @ [CHR 0x22, CHR 0x22])"
    by code_simp
  from anonymization_error_ignores_input [OF h1 h2, of "examplePkg ''headers''"] q h1 h2 n
  show ?thesis by simp
qed

section \<open>Create, then Read\<close>

lemma dnsZoneToResource_again:
  assumes "dnsZoneToResource z d = (None, d')"
  shows "dnsZoneToResource z (d'\<lparr>rd_last_updated := t\<rparr>) = (None, d'\<lparr>rd_last_updated := t\<rparr>)"
proof (cases "LogAnonymizationType z = 0 \<or> LogAnonymizationType z = 1")
  case True
  from assms have d': "d' = snd (dnsZoneToResource z d)" by simp
  show ?thesis
    unfolding d' using True
    by (cases "ID z") (auto simp: dnsZoneToResource_known)
next
  case False
  with assms show ?thesis by (simp add: dnsZoneToResource_unknown)
qed

text \<open>
  By design a Read reproduces a document that was translated from the zone the backend
  returns: the translation of the same zone writes the same fields again.
\<close>

lemma read_reproduces_translated_document:
  assumes "dnsZoneToResource z d = (None, d')"
    and "getIDAsInt64 (d'\<lparr>rd_last_updated := t\<rparr>) = Inr j"
    and "DNSZone_Get clt j b = (Inr z, b)"
  shows "resourceDnsZoneRead clt (d'\<lparr>rd_last_updated := t\<rparr>) b
           = Return ([], d'\<lparr>rd_last_updated := t\<rparr>, b)"
  using assms(2,3) dnsZoneToResource_again [OF assms(1), of t]
  by (simp add: resourceDnsZoneRead_def)

text \<open>
  Claim C9 fails on the code: against the fake backend, for every document, Create ends
  in the panic of its follow-up Update. It produces no cached state document that a Read
  could reproduce, while the zone it created is stored in the backend under the
  identifier the backend assigned.
\<close>

theorem create_on_fake_backend_panics:
  "resourceDnsZoneCreate pk fakeClient now now' d b
     = Panic ''interface conversion: interface {} is not []interface {}''
   \<and> documentOf (resourceDnsZoneCreate pk fakeClient now now' d b) = None
   \<and> fst (DNSZone_Get fakeClient (nextID b)
            (snd (DNSZone_Add fakeClient (zero_DNSZone\<lparr>ZoneDomain := rd_domain d\<rparr>) b)))
       = Inr (zero_DNSZone\<lparr>ID := Some (nextID b), ZoneDomain := rd_domain d\<rparr>)"
proof -
  have add: "DNSZone_Add fakeClient (zero_DNSZone\<lparr>ZoneDomain := rd_domain d\<rparr>) b
      = (Inr (zero_DNSZone\<lparr>ID := Some (nextID b), ZoneDomain := rd_domain d\<rparr>),
         b\<lparr>zones := (zones b)(nextID b \<mapsto> zero_DNSZone\<lparr>ID := Some (nextID b), ZoneDomain := rd_domain d\<rparr>),
           nextID := nextID b + 1\<rparr>)"
    by (simp add: fakeClient_def fakeAdd_def Let_def)
  have c: "resourceDnsZoneCreate pk fakeClient now now' d b
     = Panic ''interface conversion: interface {} is not []interface {}''"
    by (rule create_after_add [OF add]) simp
  show ?thesis
    by (simp add: c documentOf_def add) (simp add: fakeClient_def fakeGet_def)
qed

text \<open>The scenario of the domain-only document and the backend that assigns the identifier 42.\<close>

lemma create_example_panics:
  "resourceDnsZoneCreate (examplePkg ''custom_nameservers'') fakeClient ''t1'' ''t2'' doc0 backend0
     = Panic ''interface conversion: interface {} is not []interface {}''"
  by (rule create_after_add [OF example_add zone42_fields(1)])

end
